theory Spec2Isabelle
  imports Complex_Main "HOL-Library.Multiset"
begin

section \<open>Product objects\<close>

text \<open>
  A product as a JavaScript object, on the server (a Mongoose document of
  \<^verbatim>\<open>productSchema\<close>, server.js 26-35) and in the browser (an element of the array that
  \<^verbatim>\<open>response.json()\<close> returns, app.js 31-32). The record has the properties that some code
  of the repository reads or writes; a property that is absent (\<^verbatim>\<open>undefined\<close>) is \<open>None\<close>.

  \<^item> \<open>ident\<close> is \<^verbatim>\<open>_id\<close>: an ObjectId, a 12-byte value, kept as the number it denotes.
  \<^item> \<open>name\<close> .. \<open>createdAt\<close> are the paths of the schema. \<open>image_file\<close> is the path
    \<^verbatim>\<open>image\<close>. On the server \<open>None\<close> also stands for \<^verbatim>\<open>null\<close>.
  \<^item> \<open>title\<close>, \<open>console\<close> and \<open>currentPrice\<close> are read by the client (app.js 65-68,
    97-117). They are not paths of the schema.

  Numbers are JavaScript doubles in the source. Every finite double is a rational, and
  for finite doubles \<^verbatim>\<open>a - b\<close> has the sign of the exact difference, so prices are
  rationals here; \<^verbatim>\<open>NaN\<close> is \<open>None\<close>.
\<close>

record product =
  ident :: nat
  name :: "string option"
  description :: "string option"
  price :: "rat option"
  category :: "string option"
  image_file :: "string option"
  stock :: "rat option"
  rating :: "rat option"
  createdAt :: nat
  title :: "string option"
  console :: "string option"
  currentPrice :: "rat option"

section \<open>Strings\<close>

text \<open>
  \<^verbatim>\<open>String.prototype.toLowerCase\<close> on the letters A-Z; every other character is kept.
  (Characters are bytes here; the source's strings are UTF-16.)
\<close>

definition toLowerCase_char :: "char \<Rightarrow> char" where
  "toLowerCase_char c =
     (let n = (of_char c :: nat) in if 65 \<le> n \<and> n \<le> 90 then char_of (n + 32) else c)"

definition toLowerCase :: "string \<Rightarrow> string" where
  "toLowerCase s = map toLowerCase_char s"

fun startsWith :: "string \<Rightarrow> string \<Rightarrow> bool" where
  "startsWith hay [] = True"
| "startsWith [] (n # ns) = False"
| "startsWith (h # hs) (n # ns) = (h = n \<and> startsWith hs ns)"

text \<open>\<^verbatim>\<open>hay.includes(needle)\<close>: \<open>needle\<close> occurs in \<open>hay\<close> as a contiguous substring.\<close>

fun str_includes :: "string \<Rightarrow> string \<Rightarrow> bool" where
  "str_includes [] needle = (needle = [])"
| "str_includes (h # hs) needle = (startsWith (h # hs) needle \<or> str_includes hs needle)"

section \<open>Catalog client (app.js)\<close>

text \<open>
  The exceptions of the model: the TypeError of a property access on \<^verbatim>\<open>undefined\<close> in
  the browser; on the server Mongoose's CastError and ValidationError and the error of a
  failed \<^verbatim>\<open>fs.unlinkSync\<close>.
\<close>

datatype exn = TypeError | CastError | ValidationError | UnlinkError

definition productsPerPage :: nat where
  "productsPerPage = 8"

text \<open>\<^verbatim>\<open>xs.slice(start, end)\<close> for \<open>0 \<le> start\<close>.\<close>

definition slice :: "'a list \<Rightarrow> nat \<Rightarrow> nat \<Rightarrow> 'a list" where
  "slice xs start end = take (end - start) (drop start xs)"

text \<open>
  The window of \<^verbatim>\<open>renderProducts\<close> (app.js 50-52). \<^verbatim>\<open>currentPage\<close> is at least 1 in
  every state the client reaches (it starts at 1, is decremented only when above 1 and is
  otherwise set to 1 or to a button's number), so the subtraction never goes below 0.
\<close>

definition currentProducts :: "product list \<Rightarrow> nat \<Rightarrow> product list" where
  "currentProducts filteredProducts currentPage =
     (let startIndex = (currentPage - 1) * productsPerPage;
          endIndex = startIndex + productsPerPage
      in slice filteredProducts startIndex endIndex)"

text \<open>\<^verbatim>\<open>Math.ceil(filteredProducts.length / productsPerPage)\<close> (app.js 130).\<close>

definition totalPages :: "product list \<Rightarrow> nat" where
  "totalPages filteredProducts =
     (length filteredProducts + (productsPerPage - 1)) div productsPerPage"

subsection \<open>Filtering (app.js 96-103)\<close>

text \<open>
  \<^verbatim>\<open>!categoryValue || product.console === categoryValue\<close>: the empty string is the only
  falsy string, and \<^verbatim>\<open>===\<close> between an absent property and a string is false.
\<close>

definition matchesCategory :: "string \<Rightarrow> product \<Rightarrow> bool" where
  "matchesCategory categoryValue product =
     (categoryValue = [] \<or> console product = Some categoryValue)"

text \<open>
  \<^verbatim>\<open>!searchValue || product.title.toLowerCase().includes(searchValue) ||
  product.description.toLowerCase().includes(searchValue)\<close>, evaluated left to right with
  short circuit. Calling \<^verbatim>\<open>toLowerCase\<close> on an absent property throws a TypeError.
\<close>

definition matchesSearch :: "string \<Rightarrow> product \<Rightarrow> exn + bool" where
  "matchesSearch searchValue product =
     (if searchValue = [] then Inr True
      else case title product of
             None \<Rightarrow> Inl TypeError
           | Some t \<Rightarrow>
               if str_includes (toLowerCase t) searchValue then Inr True
               else (case description product of
                       None \<Rightarrow> Inl TypeError
                     | Some d \<Rightarrow> Inr (str_includes (toLowerCase d) searchValue)))"

text \<open>
  \<^verbatim>\<open>allProducts.filter(product => ...)\<close>. The callback computes both \<^verbatim>\<open>matchesCategory\<close>
  and \<^verbatim>\<open>matchesSearch\<close> for every product, in order; the first TypeError ends the call.
\<close>

fun filter_products :: "string \<Rightarrow> string \<Rightarrow> product list \<Rightarrow> exn + product list" where
  "filter_products categoryValue searchValue [] = Inr []"
| "filter_products categoryValue searchValue (product # rest) =
     (case matchesSearch searchValue product of
        Inl e \<Rightarrow> Inl e
      | Inr m \<Rightarrow>
          (case filter_products categoryValue searchValue rest of
             Inl e \<Rightarrow> Inl e
           | Inr kept \<Rightarrow>
               Inr (if matchesCategory categoryValue product \<and> m then product # kept else kept)))"

subsection \<open>Sorting (app.js 106-119)\<close>

text \<open>
  A comparison function returns a number, \<^verbatim>\<open>NaN\<close> (\<open>None\<close>), or throws.
  \<^verbatim>\<open>a.currentPrice - b.currentPrice\<close> is \<^verbatim>\<open>NaN\<close> as soon as one property is absent.
\<close>

type_synonym comparefn = "product \<Rightarrow> product \<Rightarrow> exn + rat option"

definition num_minus :: "rat option \<Rightarrow> rat option \<Rightarrow> rat option" where
  "num_minus a b = (case a of None \<Rightarrow> None
                    | Some x \<Rightarrow> (case b of None \<Rightarrow> None | Some y \<Rightarrow> Some (x - y)))"

definition price_asc :: comparefn where
  "price_asc a b = Inr (num_minus (currentPrice a) (currentPrice b))"

definition price_desc :: comparefn where
  "price_desc a b = Inr (num_minus (currentPrice b) (currentPrice a))"

text \<open>
  \<^verbatim>\<open>a.title.localeCompare(b.title)\<close>. The collation is the browser's and is a parameter
  \<open>localeCompare\<close> here. An absent receiver throws; an absent argument is converted to
  the string \<^verbatim>\<open>"undefined"\<close>.
\<close>

definition name_asc :: "(string \<Rightarrow> string \<Rightarrow> int) \<Rightarrow> comparefn" where
  "name_asc localeCompare a b =
     (case title a of
        None \<Rightarrow> Inl TypeError
      | Some t \<Rightarrow>
          Inr (Some (of_int (localeCompare t
                 (case title b of None \<Rightarrow> ''undefined'' | Some u \<Rightarrow> u)))))"

definition name_desc :: "(string \<Rightarrow> string \<Rightarrow> int) \<Rightarrow> comparefn" where
  "name_desc localeCompare a b = name_asc localeCompare b a"

text \<open>
  \<^verbatim>\<open>Array.prototype.sort(comparefn)\<close>: stable, \<open>x\<close> stays before \<open>y\<close> unless
  \<open>comparefn x y > 0\<close>, and a \<^verbatim>\<open>NaN\<close> result counts as 0. For a comparison function
  that is a consistent ordering and does not throw, the result of a stable sort is
  determined, and it is what this insertion sort returns. Otherwise ECMAScript leaves the
  order of the calls and the resulting order to the implementation; the model then is one
  admissible behaviour.
\<close>

fun insert_sorted :: "comparefn \<Rightarrow> product \<Rightarrow> product list \<Rightarrow> exn + product list" where
  "insert_sorted comparefn x [] = Inr [x]"
| "insert_sorted comparefn x (y # ys) =
     (case comparefn x y of
        Inl e \<Rightarrow> Inl e
      | Inr v \<Rightarrow>
          if (case v of None \<Rightarrow> 0 | Some r \<Rightarrow> r) \<le> 0 then Inr (x # y # ys)
          else (case insert_sorted comparefn x ys of
                  Inl e \<Rightarrow> Inl e
                | Inr zs \<Rightarrow> Inr (y # zs)))"

fun array_sort :: "comparefn \<Rightarrow> product list \<Rightarrow> exn + product list" where
  "array_sort comparefn [] = Inr []"
| "array_sort comparefn (x # xs) =
     (case array_sort comparefn xs of
        Inl e \<Rightarrow> Inl e
      | Inr ys \<Rightarrow> insert_sorted comparefn x ys)"

text \<open>The \<^verbatim>\<open>switch (sortValue)\<close>; any other value leaves the order as filtered.\<close>

definition sort_products ::
  "(string \<Rightarrow> string \<Rightarrow> int) \<Rightarrow> string \<Rightarrow> product list \<Rightarrow> exn + product list" where
  "sort_products localeCompare sortValue xs =
     (if sortValue = ''price_asc'' then array_sort price_asc xs
      else if sortValue = ''price_desc'' then array_sort price_desc xs
      else if sortValue = ''name_asc'' then array_sort (name_asc localeCompare) xs
      else if sortValue = ''name_desc'' then array_sort (name_desc localeCompare) xs
      else Inr xs)"

subsection \<open>Client state and rendering\<close>

text \<open>
  The globals of app.js 7-10, the values of the three controls, and the part of the page
  that the handlers depend on:
  \<^item> \<open>productGrid\<close>: the placeholder, or the cards appended so far;
  \<^item> \<open>pagination\<close>: \<open>None\<close> when \<^verbatim>\<open>paginationElement\<close> is empty, else
    \<open>Some (page, pages)\<close>, the values of \<^verbatim>\<open>currentPage\<close> and \<^verbatim>\<open>totalPages\<close> that the buttons
    in it were created with (their \<^verbatim>\<open>disabled\<close> flags and their handlers' closures);
  \<^item> \<open>loading\<close>: the state of \<^verbatim>\<open>loadingElement\<close>.
\<close>

datatype grid = NoResults | Cards "product list"

datatype loading = Loading | Loaded | LoadError

record client =
  allProducts :: "product list"
  filteredProducts :: "product list"
  currentPage :: nat
  categoryFilter :: string
  sortBySelect :: string
  searchInput :: string
  productGrid :: grid
  pagination :: "(nat \<times> nat) option"
  loadingElement :: loading

text \<open>\<^verbatim>\<open>renderPagination\<close> (app.js 127-171).\<close>

definition renderPagination :: "client \<Rightarrow> client" where
  "renderPagination st =
     (if totalPages (filteredProducts st) \<le> 1 then st\<lparr>pagination := None\<rparr>
      else st\<lparr>pagination := Some (currentPage st, totalPages (filteredProducts st))\<rparr>)"

text \<open>
  A card is built from \<^verbatim>\<open>product.currentPrice.toFixed(2)\<close> and
  \<^verbatim>\<open>product.description.substring(0, 60)\<close> (app.js 68-69): each throws a TypeError on an
  absent property. An absent \<^verbatim>\<open>title\<close> or \<^verbatim>\<open>image\<close> is only printed as "undefined".
\<close>

definition card_renders :: "product \<Rightarrow> bool" where
  "card_renders product = (currentPrice product \<noteq> None \<and> description product \<noteq> None)"

text \<open>
  \<^verbatim>\<open>renderProducts\<close> (app.js 45-87), with the exception it ends with, if any. It returns
  before \<^verbatim>\<open>renderPagination\<close> when the window is empty, and never reaches it when a card
  throws.
\<close>

definition renderProducts :: "client \<Rightarrow> exn option \<times> client" where
  "renderProducts st =
     (let window = currentProducts (filteredProducts st) (currentPage st)
      in if window = [] then (None, st\<lparr>productGrid := NoResults\<rparr>)
         else if list_all card_renders window
         then (None, renderPagination (st\<lparr>productGrid := Cards window\<rparr>))
         else (Some TypeError, st\<lparr>productGrid := Cards (takeWhile card_renders window)\<rparr>))"

text \<open>
  \<^verbatim>\<open>applyFilters\<close> (app.js 90-124). A TypeError in the filter leaves every global as it
  was; one in the sort comes after \<^verbatim>\<open>filteredProducts\<close> was assigned and before
  \<^verbatim>\<open>currentPage = 1\<close>.
\<close>

definition applyFilters :: "(string \<Rightarrow> string \<Rightarrow> int) \<Rightarrow> client \<Rightarrow> exn option \<times> client" where
  "applyFilters localeCompare st =
     (let categoryValue = categoryFilter st;
          searchValue = toLowerCase (searchInput st);
          sortValue = sortBySelect st
      in case filter_products categoryValue searchValue (allProducts st) of
           Inl e \<Rightarrow> (Some e, st)
         | Inr filtered \<Rightarrow>
             (case sort_products localeCompare sortValue filtered of
                Inl e \<Rightarrow> (Some e, st\<lparr>filteredProducts := filtered\<rparr>)
              | Inr ordered \<Rightarrow>
                  renderProducts (st\<lparr>filteredProducts := ordered, currentPage := 1\<rparr>)))"

text \<open>
  \<^verbatim>\<open>fetchProducts\<close> (app.js 21-42). \<open>response\<close> is \<open>None\<close> when the request fails or the
  status is not ok, else the parsed array. Any exception inside the \<^verbatim>\<open>try\<close> ends in the
  \<^verbatim>\<open>catch\<close>, which shows the error text.
\<close>

definition fetchProducts ::
  "(string \<Rightarrow> string \<Rightarrow> int) \<Rightarrow> product list option \<Rightarrow> client \<Rightarrow> client" where
  "fetchProducts localeCompare response st =
     (case response of
        None \<Rightarrow> st\<lparr>loadingElement := LoadError\<rparr>
      | Some data \<Rightarrow>
          (case applyFilters localeCompare
                  (st\<lparr>loadingElement := Loading, allProducts := data, filteredProducts := data\<rparr>) of
             (None, st') \<Rightarrow> st'\<lparr>loadingElement := Loaded\<rparr>
           | (Some e, st') \<Rightarrow> st'\<lparr>loadingElement := LoadError\<rparr>))"

text \<open>
  The page before \<^verbatim>\<open>DOMContentLoaded\<close>; the controls start with the values the markup
  gives them.
\<close>

definition initial :: "string \<Rightarrow> string \<Rightarrow> string \<Rightarrow> client" where
  "initial categoryValue sortValue searchValue =
     \<lparr>allProducts = [], filteredProducts = [], currentPage = 1,
      categoryFilter = categoryValue, sortBySelect = sortValue, searchInput = searchValue,
      productGrid = Cards [], pagination = None, loadingElement = Loading\<rparr>"

text \<open>
  The events of app.js 140-169 and 182-184. A control event carries the control's new
  value. A click reaches its handler only when the button is in \<^verbatim>\<open>paginationElement\<close> and
  is not disabled; the handlers use the \<^verbatim>\<open>totalPages\<close> of their closure. An exception in a
  handler is reported by the browser and the globals stay as the handler left them.
\<close>

datatype event =
    CategoryChange string
  | SortChange string
  | SearchInput string
  | PrevClick
  | PageClick nat
  | NextClick

definition handle :: "(string \<Rightarrow> string \<Rightarrow> int) \<Rightarrow> event \<Rightarrow> client \<Rightarrow> client" where
  "handle localeCompare ev st =
     (case ev of
        CategoryChange v \<Rightarrow> snd (applyFilters localeCompare (st\<lparr>categoryFilter := v\<rparr>))
      | SortChange v \<Rightarrow> snd (applyFilters localeCompare (st\<lparr>sortBySelect := v\<rparr>))
      | SearchInput v \<Rightarrow> snd (applyFilters localeCompare (st\<lparr>searchInput := v\<rparr>))
      | PrevClick \<Rightarrow>
          (case pagination st of
             None \<Rightarrow> st
           | Some (page, pages) \<Rightarrow>
               if page \<noteq> 1 \<and> currentPage st > 1
               then snd (renderProducts (st\<lparr>currentPage := currentPage st - 1\<rparr>))
               else st)
      | PageClick i \<Rightarrow>
          (case pagination st of
             None \<Rightarrow> st
           | Some (page, pages) \<Rightarrow>
               if 1 \<le> i \<and> i \<le> pages
               then snd (renderProducts (st\<lparr>currentPage := i\<rparr>))
               else st)
      | NextClick \<Rightarrow>
          (case pagination st of
             None \<Rightarrow> st
           | Some (page, pages) \<Rightarrow>
               if page \<noteq> pages \<and> currentPage st < pages
               then snd (renderProducts (st\<lparr>currentPage := currentPage st + 1\<rparr>))
               else st))"

fun run :: "(string \<Rightarrow> string \<Rightarrow> int) \<Rightarrow> event list \<Rightarrow> client \<Rightarrow> client" where
  "run localeCompare [] st = st"
| "run localeCompare (ev # evs) st = run localeCompare evs (handle localeCompare ev st)"

subsection \<open>Properties of client states\<close>

text \<open>The order that a price sort is to establish on \<^verbatim>\<open>currentPrice\<close>.\<close>

definition price_le :: "product \<Rightarrow> product \<Rightarrow> bool" where
  "price_le a b =
     (case currentPrice a of
        None \<Rightarrow> False
      | Some x \<Rightarrow> (case currentPrice b of None \<Rightarrow> False | Some y \<Rightarrow> x \<le> y))"

text \<open>A product on which no expression of the client throws.\<close>

definition wellformed :: "product \<Rightarrow> bool" where
  "wellformed product =
     (title product \<noteq> None \<and> description product \<noteq> None \<and> currentPrice product \<noteq> None)"

text \<open>\<^verbatim>\<open>filteredProducts\<close> is what the filter and the sort give for the present values of
  the three controls.\<close>

definition criteria_met :: "(string \<Rightarrow> string \<Rightarrow> int) \<Rightarrow> client \<Rightarrow> bool" where
  "criteria_met localeCompare st =
     (case filter_products (categoryFilter st) (toLowerCase (searchInput st)) (allProducts st) of
        Inl e \<Rightarrow> False
      | Inr filtered \<Rightarrow>
          sort_products localeCompare (sortBySelect st) filtered = Inr (filteredProducts st))"

text \<open>The grid shows the window of \<^verbatim>\<open>currentPage\<close>, or the placeholder when that
  window is empty.\<close>

definition shows_window :: "client \<Rightarrow> bool" where
  "shows_window st =
     (productGrid st =
        (if currentProducts (filteredProducts st) (currentPage st) = [] then NoResults
         else Cards (currentProducts (filteredProducts st) (currentPage st))))"

text \<open>While there are products to show, the buttons are those of the present page and
  page count.\<close>

definition buttons_fresh :: "client \<Rightarrow> bool" where
  "buttons_fresh st =
     (filteredProducts st \<noteq> [] \<longrightarrow>
        pagination st =
          (if totalPages (filteredProducts st) \<le> 1 then None
           else Some (currentPage st, totalPages (filteredProducts st))))"

definition page_in_range :: "client \<Rightarrow> bool" where
  "page_in_range st =
     (1 \<le> currentPage st \<and>
      (filteredProducts st \<noteq> [] \<longrightarrow> currentPage st \<le> totalPages (filteredProducts st)))"

definition client_inv :: "(string \<Rightarrow> string \<Rightarrow> int) \<Rightarrow> client \<Rightarrow> bool" where
  "client_inv localeCompare st =
     (list_all wellformed (allProducts st) \<and> list_all wellformed (filteredProducts st) \<and>
      criteria_met localeCompare st \<and> shows_window st \<and> buttons_fresh st \<and> page_in_range st)"

section \<open>Catalog API (server.js)\<close>

subsection \<open>Requests, responses, the store and the upload directory\<close>

text \<open>
  A value sent for a path of type Number, as Mongoose's cast sees it: not sent
  (\<^verbatim>\<open>undefined\<close>), the empty string (cast to \<^verbatim>\<open>null\<close>), a number or a text that
  \<^verbatim>\<open>Number()\<close> reads as the number given, or anything that it reads as \<^verbatim>\<open>NaN\<close> (such
  as \<^verbatim>\<open>"abc"\<close>), for which the cast throws.
\<close>

datatype numfield = Unset | Empty | Num rat | NonNumeric

text \<open>
  \<^verbatim>\<open>req.body\<close> and the attached \<^verbatim>\<open>image\<close> part (its original name) of a request to
  \<^verbatim>\<open>POST /api/products\<close> or \<^verbatim>\<open>PUT /api/products/:id\<close>. A text field is \<open>None\<close> when the
  body does not have it.
\<close>

record request =
  body_name :: "string option"
  body_description :: "string option"
  body_price :: numfield
  body_category :: "string option"
  body_stock :: numfield
  body_rating :: numfield
  attached :: "string option"

datatype reply =
    Product product
  | Products "product list"
  | Message string
  | ErrorMessage exn

type_synonym response = "nat \<times> reply"

text \<open>
  The state the handlers work on: the documents of the collection in insertion order, the
  names of the files in the \<^verbatim>\<open>uploads\<close> directory, and those among them that the process
  cannot remove (for these \<^verbatim>\<open>fs.unlinkSync\<close> throws). Failures of the connection to the
  database are outside the model.
\<close>

record server =
  collection :: "product list"
  uploads :: "string list"
  undeletable :: "string list"

text \<open>How Mongoose treats a key of an update whose value is \<^verbatim>\<open>undefined\<close>: versions
  from 6 on drop the key; version 5 sends it and the driver stores \<^verbatim>\<open>null\<close>.\<close>

datatype undefined_policy = DropKey | StoreNull

subsection \<open>ObjectIds and file names\<close>

definition hex_value :: "char \<Rightarrow> nat option" where
  "hex_value c =
     (let n = (of_char c :: nat)
      in if 48 \<le> n \<and> n \<le> 57 then Some (n - 48)
         else if 97 \<le> n \<and> n \<le> 102 then Some (n - 87)
         else if 65 \<le> n \<and> n \<le> 70 then Some (n - 55)
         else None)"

fun hex_number :: "nat \<Rightarrow> string \<Rightarrow> nat option" where
  "hex_number acc [] = Some acc"
| "hex_number acc (c # cs) =
     (case hex_value c of None \<Rightarrow> None | Some d \<Rightarrow> hex_number (16 * acc + d) cs)"

text \<open>
  Mongoose casts the \<^verbatim>\<open>:id\<close> of the URL to an ObjectId: a string of 24 hexadecimal
  digits is the id it spells, any other string is a CastError.
\<close>

definition castObjectId :: "string \<Rightarrow> nat option" where
  "castObjectId s = (if length s = 24 then hex_number 0 s else None)"

text \<open>
  The driver gives a new document an ObjectId that no document of the collection has;
  the model takes the successor of the largest one.
\<close>

definition fresh_ident :: "product list \<Rightarrow> nat" where
  "fresh_ident docs = Suc (fold max (map ident docs) 0)"

text \<open>
  The decimal numeral of a number, as the conversion of \<^verbatim>\<open>Date.now()\<close> to a string
  gives it. The first argument of \<open>digits\<close> bounds the number of digits; \<open>n\<close> has at
  most \<open>n + 1\<close>.
\<close>

definition digit_char :: "nat \<Rightarrow> char" where
  "digit_char d = ''0123456789'' ! d"

fun digits :: "nat \<Rightarrow> nat \<Rightarrow> string" where
  "digits 0 n = []"
| "digits (Suc bound) n =
     (if n < 10 then [digit_char n]
      else digits bound (n div 10) @ [digit_char (n mod 10)])"

definition decimal :: "nat \<Rightarrow> string" where
  "decimal n = digits (Suc n) n"

text \<open>The \<^verbatim>\<open>filename\<close> function of the multer storage (server.js 50-53):
  \<^verbatim>\<open>Date.now() + '-' + file.originalname\<close>.\<close>

definition multer_filename :: "nat \<Rightarrow> string \<Rightarrow> string" where
  "multer_filename now originalname = decimal now @ ''-'' @ originalname"

text \<open>
  \<^verbatim>\<open>upload.single('image')\<close>: when the request has the part, the file is written to the
  upload directory before the handler runs and \<^verbatim>\<open>req.file.filename\<close> is its name there.
\<close>

definition upload_single :: "nat \<Rightarrow> request \<Rightarrow> server \<Rightarrow> string option \<times> server" where
  "upload_single now req sv =
     (case attached req of
        None \<Rightarrow> (None, sv)
      | Some originalname \<Rightarrow>
          (Some (multer_filename now originalname),
           sv\<lparr>uploads := List.insert (multer_filename now originalname) (uploads sv)\<rparr>))"

subsection \<open>The model operations\<close>

text \<open>\<^verbatim>\<open>Product.findById(id)\<close>: a CastError, \<^verbatim>\<open>null\<close> or the document.\<close>

definition findById :: "product list \<Rightarrow> string \<Rightarrow> exn + product option" where
  "findById docs id_param =
     (case castObjectId id_param of
        None \<Rightarrow> Inl CastError
      | Some oid \<Rightarrow> Inr (find (\<lambda>d. ident d = oid) docs))"

text \<open>
  The validation of \<^verbatim>\<open>save()\<close> against the schema (server.js 26-35): a required String
  must be a non-empty string, a required Number must be a number, and a value that does
  not cast fails as well.
\<close>

definition required_string :: "string option \<Rightarrow> exn + string" where
  "required_string v =
     (case v of None \<Rightarrow> Inl ValidationError
      | Some s \<Rightarrow> if s = [] then Inl ValidationError else Inr s)"

definition required_number :: "numfield \<Rightarrow> exn + rat" where
  "required_number v =
     (case v of Num r \<Rightarrow> Inr r | _ \<Rightarrow> Inl ValidationError)"

text \<open>\<^verbatim>\<open>stock || 0\<close> and \<^verbatim>\<open>rating || 0\<close>, then the cast: an absent or empty value is 0.\<close>

definition number_or_zero :: "numfield \<Rightarrow> exn + rat" where
  "number_or_zero v =
     (case v of Unset \<Rightarrow> Inr 0 | Empty \<Rightarrow> Inr 0 | Num r \<Rightarrow> Inr r
      | NonNumeric \<Rightarrow> Inl ValidationError)"

text \<open>
  \<^verbatim>\<open>new Product({...}).save()\<close> of the POST handler (server.js 111-121): the validated
  document with its generated \<^verbatim>\<open>_id\<close> and the default of \<^verbatim>\<open>createdAt\<close>, or the
  ValidationError.
\<close>

definition new_product :: "request \<Rightarrow> string \<Rightarrow> nat \<Rightarrow> nat \<Rightarrow> exn + product" where
  "new_product req filename oid now =
     (case required_string (body_name req) of Inl e \<Rightarrow> Inl e | Inr n \<Rightarrow>
      case required_string (body_description req) of Inl e \<Rightarrow> Inl e | Inr d \<Rightarrow>
      case required_number (body_price req) of Inl e \<Rightarrow> Inl e | Inr p \<Rightarrow>
      case required_string (body_category req) of Inl e \<Rightarrow> Inl e | Inr c \<Rightarrow>
      case number_or_zero (body_stock req) of Inl e \<Rightarrow> Inl e | Inr s \<Rightarrow>
      case number_or_zero (body_rating req) of Inl e \<Rightarrow> Inl e | Inr r \<Rightarrow>
      case required_string (Some filename) of Inl e \<Rightarrow> Inl e | Inr i \<Rightarrow>
        Inr \<lparr>ident = oid, name = Some n, description = Some d, price = Some p,
             category = Some c, image_file = Some i, stock = Some s, rating = Some r,
             createdAt = now, title = None, console = None, currentPrice = None\<rparr>)"

text \<open>
  The \<^verbatim>\<open>$set\<close> that \<^verbatim>\<open>findByIdAndUpdate(id, updateData, {new: true})\<close> performs on the
  document found. Validators do not run on an update; values are cast.
\<close>

definition set_text :: "undefined_policy \<Rightarrow> string option \<Rightarrow> string option \<Rightarrow> string option" where
  "set_text policy v old =
     (case v of
        None \<Rightarrow> (case policy of DropKey \<Rightarrow> old | StoreNull \<Rightarrow> None)
      | Some s \<Rightarrow> Some s)"

definition set_number :: "undefined_policy \<Rightarrow> numfield \<Rightarrow> rat option \<Rightarrow> rat option" where
  "set_number policy v old =
     (case v of
        Unset \<Rightarrow> (case policy of DropKey \<Rightarrow> old | StoreNull \<Rightarrow> None)
      | Empty \<Rightarrow> None
      | Num r \<Rightarrow> Some r
      | NonNumeric \<Rightarrow> old)"

definition apply_update :: "undefined_policy \<Rightarrow> request \<Rightarrow> string option \<Rightarrow> product \<Rightarrow> product" where
  "apply_update policy req filename doc =
     doc\<lparr>name := set_text policy (body_name req) (name doc),
         description := set_text policy (body_description req) (description doc),
         price := set_number policy (body_price req) (price doc),
         category := set_text policy (body_category req) (category doc),
         stock := set_number policy (body_stock req) (stock doc),
         rating := set_number policy (body_rating req) (rating doc),
         image_file := (case filename of None \<Rightarrow> image_file doc | Some f \<Rightarrow> Some f)\<rparr>"

definition update_casts :: "request \<Rightarrow> bool" where
  "update_casts req =
     (body_price req \<noteq> NonNumeric \<and> body_stock req \<noteq> NonNumeric \<and> body_rating req \<noteq> NonNumeric)"

text \<open>\<^verbatim>\<open>findByIdAndUpdate\<close>: the id and the update are cast first, then the document is
  looked up and replaced in place; the result is the updated document or \<^verbatim>\<open>null\<close>.\<close>

definition findByIdAndUpdate ::
  "undefined_policy \<Rightarrow> product list \<Rightarrow> string \<Rightarrow> request \<Rightarrow> string option
     \<Rightarrow> exn + (product option \<times> product list)" where
  "findByIdAndUpdate policy docs id_param req filename =
     (case castObjectId id_param of
        None \<Rightarrow> Inl CastError
      | Some oid \<Rightarrow>
          if \<not> update_casts req then Inl CastError
          else (case find (\<lambda>d. ident d = oid) docs of
                  None \<Rightarrow> Inr (None, docs)
                | Some doc \<Rightarrow>
                    Inr (Some (apply_update policy req filename doc),
                         map (\<lambda>d. if ident d = oid then apply_update policy req filename d else d)
                           docs)))"

subsection \<open>The handlers\<close>

text \<open>\<^verbatim>\<open>GET /api/products\<close> (server.js 60-67).\<close>

definition listProducts :: "server \<Rightarrow> response" where
  "listProducts sv = (200, Products (collection sv))"


text \<open>\<^verbatim>\<open>POST /api/products\<close> (server.js 103-126), after the upload middleware.
  \<open>now\<close> is the clock, read by \<^verbatim>\<open>Date.now\<close>.\<close>

definition createProduct :: "nat \<Rightarrow> request \<Rightarrow> server \<Rightarrow> response \<times> server" where
  "createProduct now req sv0 =
     (case upload_single now req sv0 of
        (None, sv) \<Rightarrow> ((400, Message ''Image file is required''), sv)
      | (Some filename, sv) \<Rightarrow>
          (case new_product req filename (fresh_ident (collection sv)) now of
             Inl err \<Rightarrow> ((400, ErrorMessage err), sv)
           | Inr savedProduct \<Rightarrow>
               ((201, Product savedProduct),
                sv\<lparr>collection := collection sv @ [savedProduct]\<rparr>)))"

text \<open>
  The deletion of the old image in the PUT handler (server.js 139-145): nothing happens
  when there is no document, no image name (the empty string is falsy too) or no such
  file; otherwise \<^verbatim>\<open>fs.unlinkSync\<close> removes the file or throws.
\<close>

definition delete_old_image :: "product option \<Rightarrow> server \<Rightarrow> exn + server" where
  "delete_old_image product sv =
     (case product of
        None \<Rightarrow> Inr sv
      | Some p \<Rightarrow>
          (case image_file p of
             None \<Rightarrow> Inr sv
           | Some oldImage \<Rightarrow>
               if oldImage = [] then Inr sv
               else if oldImage \<notin> set (uploads sv) then Inr sv
               else if oldImage \<in> set (undeletable sv) then Inl UnlinkError
               else Inr (sv\<lparr>uploads := removeAll oldImage (uploads sv)\<rparr>)))"

text \<open>\<^verbatim>\<open>PUT /api/products/:id\<close> (server.js 129-162), after the upload middleware. Every
  exception inside the \<^verbatim>\<open>try\<close> is answered with 400 by the \<^verbatim>\<open>catch\<close>.\<close>

definition updateProduct ::
  "undefined_policy \<Rightarrow> nat \<Rightarrow> string \<Rightarrow> request \<Rightarrow> server \<Rightarrow> response \<times> server" where
  "updateProduct policy now id_param req sv0 =
     (case upload_single now req sv0 of (filename, sv1) \<Rightarrow>
        (case (if filename = None then Inr sv1
               else (case findById (collection sv1) id_param of
                       Inl err \<Rightarrow> Inl err
                     | Inr product \<Rightarrow> delete_old_image product sv1)) of
           Inl err \<Rightarrow> ((400, ErrorMessage err), sv1)
         | Inr sv2 \<Rightarrow>
             (case findByIdAndUpdate policy (collection sv2) id_param req filename of
                Inl err \<Rightarrow> ((400, ErrorMessage err), sv2)
              | Inr (None, docs) \<Rightarrow> ((404, Message ''Product not found''), sv2)
              | Inr (Some updatedProduct, docs) \<Rightarrow>
                  ((200, Product updatedProduct), sv2\<lparr>collection := docs\<rparr>))))"

subsection \<open>Seeding (server.js 189-288)\<close>

text \<open>One element of \<^verbatim>\<open>sampleProducts\<close>, still without the \<^verbatim>\<open>_id\<close> and the
  \<^verbatim>\<open>createdAt\<close> that \<^verbatim>\<open>insertMany\<close> adds. Decimal literals are the rationals they spell.\<close>

definition sample ::
  "string \<Rightarrow> string \<Rightarrow> rat \<Rightarrow> string \<Rightarrow> rat \<Rightarrow> rat \<Rightarrow> string \<Rightarrow> nat \<Rightarrow> nat \<Rightarrow> product" where
  "sample n d p c s r i oid now =
     \<lparr>ident = oid, name = Some n, description = Some d, price = Some p,
      category = Some c, image_file = Some i, stock = Some s, rating = Some r,
      createdAt = now, title = None, console = None, currentPrice = None\<rparr>"

definition sampleProducts :: "(nat \<Rightarrow> nat \<Rightarrow> product) list" where
  "sampleProducts =
     [sample ''Wireless Headphones''
        ''High-quality wireless headphones with noise cancellation.''
        (14999 / 100) ''electronics'' 50 (45 / 10) ''headphones.jpg'',
      sample ''Smart Watch''
        ''Track your fitness and stay connected with this sleek smart watch.''
        (19999 / 100) ''electronics'' 30 (42 / 10) ''smartwatch.jpg'',
      sample ''Cotton T-Shirt''
        ''Comfortable 100% cotton t-shirt available in multiple colors.''
        (1999 / 100) ''clothing'' 100 4 ''tshirt.jpg'',
      sample ''Denim Jeans''
        ''Classic denim jeans with a modern fit.''
        (5999 / 100) ''clothing'' 75 (43 / 10) ''jeans.jpg'',
      sample ''Coffee Maker''
        ''Programmable coffee maker for the perfect morning brew.''
        (8999 / 100) ''home'' 25 (47 / 10) ''coffeemaker.jpg'',
      sample ''Blender''
        ''High-powered blender for smoothies and more.''
        (7999 / 100) ''home'' 20 (41 / 10) ''blender.jpg'',
      sample ''Wireless Earbuds''
        ''Compact wireless earbuds with amazing sound quality.''
        (12999 / 100) ''electronics'' 40 (46 / 10) ''earbuds.jpg'',
      sample ''Running Shoes''
        ''Lightweight and comfortable running shoes for all terrains.''
        (8999 / 100) ''clothing'' 60 (44 / 10) ''shoes.jpg'']"

text \<open>\<^verbatim>\<open>Product.insertMany(docs)\<close>: the documents are appended in order, each with a new
  \<^verbatim>\<open>_id\<close> and \<^verbatim>\<open>createdAt\<close>.\<close>

fun insertMany :: "nat \<Rightarrow> (nat \<Rightarrow> nat \<Rightarrow> product) list \<Rightarrow> product list \<Rightarrow> product list" where
  "insertMany now [] docs = docs"
| "insertMany now (mk # rest) docs = insertMany now rest (docs @ [mk (fresh_ident docs) now])"

definition seedDatabase :: "nat \<Rightarrow> server \<Rightarrow> server" where
  "seedDatabase now sv =
     (let count = length (collection sv)
      in if count > 0 then sv
         else sv\<lparr>collection := insertMany now sampleProducts (collection sv)\<rparr>)"

subsection \<open>Documents of the schema\<close>

text \<open>A document with the paths of \<^verbatim>\<open>productSchema\<close> only: the three properties that the
  client reads besides \<^verbatim>\<open>description\<close> and \<^verbatim>\<open>image\<close> are absent.\<close>

definition schema_only :: "product \<Rightarrow> bool" where
  "schema_only d = (title d = None \<and> console d = None \<and> currentPrice d = None)"

section \<open>Example data\<close>

text \<open>A deployment with an empty collection and an empty upload directory, and the
  array that \<^verbatim>\<open>GET /api/products\<close> serves once it has been seeded.\<close>

definition fresh_deployment :: server where
  "fresh_deployment = \<lparr>collection = [], uploads = [], undeletable = []\<rparr>"

definition served :: "product list" where
  "served = collection (seedDatabase 0 fresh_deployment)"

definition seeded_deployment :: server where
  "seeded_deployment = seedDatabase 0 fresh_deployment"



definition stock_request :: request where
  "stock_request =
     \<lparr>body_name = None, body_description = None, body_price = Unset,
      body_category = None, body_stock = Num 5, body_rating = Unset, attached = None\<rparr>"


text \<open>An object with the properties the client reads.\<close>

definition game :: "nat \<Rightarrow> product" where
  "game i =
     \<lparr>ident = i, name = None, description = Some ''A game'', price = None,
      category = None, image_file = Some ''game.png'', stock = None, rating = None,
      createdAt = 0, title = Some ''Game'', console = Some ''ps5'',
      currentPrice = Some (of_nat i)\<rparr>"

text \<open>A collation to run the client with: the comparison of the character codes.\<close>

fun ordinal_compare :: "string \<Rightarrow> string \<Rightarrow> int" where
  "ordinal_compare [] [] = 0"
| "ordinal_compare [] (b # bs) = - 1"
| "ordinal_compare (a # as) [] = 1"
| "ordinal_compare (a # as) (b # bs) =
     (if a = b then ordinal_compare as bs
      else if (of_char a :: nat) < of_char b then - 1 else 1)"

text \<open>The client after it has fetched 17 products that it can render (three pages).\<close>

definition seventeen :: client where
  "seventeen = fetchProducts ordinal_compare (Some (map game [1..<18])) (initial [] [] [])"

section \<open>Pagination\<close>

lemma concat_pages_take:
  "concat (map (\<lambda>p. take n (drop ((p - 1) * n) xs)) [1..<Suc k]) = take (k * n) xs"
proof (induction k)
  case 0
  show ?case by simp
next
  case (Suc k)
  have "take (k * n) xs @ take n (drop (k * n) xs) = take (k * n + n) xs"
    by (simp add: take_add)
  with Suc show ?case by (simp add: add.commute)
qed

lemma totalPages_covers: "length xs \<le> totalPages xs * productsPerPage"
proof -
  have "length xs \<le> ((length xs + 7) div 8) * 8" by presburger
  then show ?thesis by (simp add: totalPages_def productsPerPage_def)
qed

lemma full_page_length:
  assumes "1 \<le> p" and "p < totalPages xs"
  shows "length (currentProducts xs p) = productsPerPage"
proof -
  from assms(2) have "p < (length xs + 7) div 8"
    by (simp add: totalPages_def productsPerPage_def)
  then have "p * 8 \<le> length xs" by presburger
  with assms(1) have "(p - 1) * 8 + 8 \<le> length xs" by (cases p) simp_all
  then show ?thesis
    by (simp add: currentProducts_def slice_def productsPerPage_def)
qed

text \<open>
  C6. Pagination partitions the filtered sequence: the windows of the pages
  1 .. \<open>totalPages\<close>, concatenated in order, are the sequence itself (so every element
  appears exactly once, at its place), and every page before the last holds exactly
  \<open>productsPerPage\<close> = 8 elements.
\<close>

theorem pagination_partitions:
  "concat (map (currentProducts fp) [1..<Suc (totalPages fp)]) = fp
   \<and> (\<forall>p. 1 \<le> p \<and> p < totalPages fp \<longrightarrow> length (currentProducts fp p) = 8)"
proof
  have window: "currentProducts fp = (\<lambda>p. take productsPerPage (drop ((p - 1) * productsPerPage) fp))"
    by (rule ext) (simp add: currentProducts_def slice_def)
  have "concat (map (currentProducts fp) [1..<Suc (totalPages fp)])
        = take (totalPages fp * productsPerPage) fp"
    unfolding window by (rule concat_pages_take)
  also have "\<dots> = fp" using totalPages_covers [of fp] by simp
  finally show "concat (map (currentProducts fp) [1..<Suc (totalPages fp)]) = fp" .
next
  show "\<forall>p. 1 \<le> p \<and> p < totalPages fp \<longrightarrow> length (currentProducts fp p) = 8"
    using full_page_length [of _ fp] by (simp add: productsPerPage_def)
qed

theorem pagination_partitions_witness:
  "concat (map (currentProducts (map game [1..<10]))
             [1..<Suc (totalPages (map game [1..<10]))]) = map game [1..<10]
   \<and> (1::nat) \<le> 1 \<and> 1 < totalPages (map game [1..<10])
   \<and> length (currentProducts (map game [1..<10]) 1) = 8"
proof -
  have "(1::nat) \<le> 1 \<and> 1 < totalPages (map game [1..<10])"
    by code_simp
  with pagination_partitions [of "map game [1..<10]"] show ?thesis by blast
qed

section \<open>Filtering\<close>

lemma toLowerCase_char_idem: "toLowerCase_char (toLowerCase_char c) = toLowerCase_char c"
  by (simp add: toLowerCase_char_def Let_def)

lemma toLowerCase_idem: "toLowerCase (toLowerCase s) = toLowerCase s"
  by (simp add: toLowerCase_def toLowerCase_char_idem)

text \<open>When the filter returns, it has kept, in order, the products that pass both
  tests.\<close>

lemma filter_products_result:
  "filter_products c s xs = Inr ys \<Longrightarrow>
     ys = filter (\<lambda>p. matchesCategory c p \<and> matchesSearch s p = Inr True) xs"
  by (induction xs arbitrary: ys) (auto split: sum.splits)

text \<open>With an empty search text the filter always returns, and the test it applies is
  on the property \<^verbatim>\<open>console\<close>.\<close>

lemma filter_products_no_search:
  "filter_products c [] xs = Inr (filter (\<lambda>p. c = [] \<or> console p = Some c) xs)"
  by (induction xs) (auto simp: matchesSearch_def matchesCategory_def)

lemma matchesSearch_wellformed:
  "wellformed p \<Longrightarrow> \<exists>m. matchesSearch s p = Inr m"
  by (auto simp: wellformed_def matchesSearch_def)

lemma filter_products_wellformed:
  assumes "list_all wellformed xs"
  shows "filter_products c s xs
         = Inr (filter (\<lambda>p. matchesCategory c p \<and> matchesSearch s p = Inr True) xs)"
  using assms
proof (induction xs)
  case Nil
  show ?case by simp
next
  case (Cons x xs)
  then have "wellformed x" by simp
  from matchesSearch_wellformed [OF this] obtain m where "matchesSearch s x = Inr m" ..
  with Cons show ?case by simp
qed

text \<open>
  C1. On the array that \<^verbatim>\<open>GET /api/products\<close> serves, three products have the category
  \<^verbatim>\<open>electronics\<close>; selecting that category in the client leaves \<^verbatim>\<open>filteredProducts\<close>
  empty, because the filter compares the property \<^verbatim>\<open>console\<close>, which no served
  document has.
\<close>

theorem category_filter_on_served_products:
  "map category served =
     [Some ''electronics'', Some ''electronics'', Some ''clothing'', Some ''clothing'',
      Some ''home'', Some ''home'', Some ''electronics'', Some ''clothing'']
   \<and> map console served = [None, None, None, None, None, None, None, None]
   \<and> filteredProducts (handle localeCompare (CategoryChange ''electronics'')
        (fetchProducts localeCompare (Some served) (initial [] [] []))) = []"
  by code_simp

text \<open>The search test does not depend on the letter case of the text typed: the
  handler lowers it before use, and lowering twice is lowering once.\<close>

lemma search_ignores_case:
  "filter_products c (toLowerCase (toLowerCase T)) xs = filter_products c (toLowerCase T) xs"
  by (simp add: toLowerCase_idem)

text \<open>
  C8. On the array that \<^verbatim>\<open>GET /api/products\<close> serves, the second product is named
  \<^verbatim>\<open>Smart Watch\<close>; searching for \<^verbatim>\<open>WATCH\<close> or for \<^verbatim>\<open>watch\<close> ends in a TypeError in both
  cases, with \<^verbatim>\<open>filteredProducts\<close> left as it was, because the search reads the property
  \<^verbatim>\<open>title\<close>, which no served document has.
\<close>

theorem search_on_served_products:
  "name (served ! 1) = Some ''Smart Watch''
   \<and> applyFilters localeCompare
        ((fetchProducts localeCompare (Some served) (initial [] [] []))\<lparr>searchInput := ''WATCH''\<rparr>)
      = (Some TypeError,
         (fetchProducts localeCompare (Some served) (initial [] [] []))\<lparr>searchInput := ''WATCH''\<rparr>)
   \<and> applyFilters localeCompare
        ((fetchProducts localeCompare (Some served) (initial [] [] []))\<lparr>searchInput := ''watch''\<rparr>)
      = (Some TypeError,
         (fetchProducts localeCompare (Some served) (initial [] [] []))\<lparr>searchInput := ''watch''\<rparr>)"
  by code_simp

section \<open>Sorting\<close>

text \<open>A comparison function that never throws on the elements and decides an order
  \<open>R\<close> makes the sort return a permutation that is sorted by \<open>R\<close>.\<close>

lemma insert_sorted_ordering:
  assumes cmp: "\<And>a b. a \<in> S \<Longrightarrow> b \<in> S \<Longrightarrow>
            \<exists>v. comparefn a b = Inr v \<and>
                (if (case v of None \<Rightarrow> 0 | Some r \<Rightarrow> r) \<le> 0 then R a b else R b a)"
    and trans: "\<And>a b c. R a b \<Longrightarrow> R b c \<Longrightarrow> R a c"
    and "set (x # ys) \<subseteq> S" and "sorted_wrt R ys"
  shows "\<exists>zs. insert_sorted comparefn x ys = Inr zs \<and> mset zs = mset (x # ys)
              \<and> sorted_wrt R zs"
  using assms(3,4)
proof (induction ys)
  case Nil
  then show ?case by simp
next
  case (Cons y ys)
  from Cons.prems(1) have "x \<in> S" "y \<in> S" by auto
  from cmp [OF this] obtain v where v: "comparefn x y = Inr v"
    "if (case v of None \<Rightarrow> 0 | Some r \<Rightarrow> r) \<le> 0 then R x y else R y x" by blast
  show ?case
  proof (cases "(case v of None \<Rightarrow> 0 | Some r \<Rightarrow> r) \<le> 0")
    case True
    with v(2) have xy: "R x y" by simp
    with Cons.prems(2) have "\<forall>z \<in> set ys. R x z" by (auto intro: trans)
    with True v(1) xy Cons.prems(2) show ?thesis by simp
  next
    case False
    with v(2) have yx: "R y x" by simp
    from Cons.prems have "set (x # ys) \<subseteq> S" "sorted_wrt R ys" by auto
    from Cons.IH [OF this] obtain zs where zs: "insert_sorted comparefn x ys = Inr zs"
      "mset zs = mset (x # ys)" "sorted_wrt R zs" by blast
    from zs(2) have "set zs = set (x # ys)" by (metis mset_eq_setD)
    with yx Cons.prems(2) have "\<forall>z \<in> set zs. R y z" by auto
    with False v(1) zs show ?thesis by simp
  qed
qed

lemma array_sort_ordering:
  assumes cmp: "\<And>a b. a \<in> S \<Longrightarrow> b \<in> S \<Longrightarrow>
            \<exists>v. comparefn a b = Inr v \<and>
                (if (case v of None \<Rightarrow> 0 | Some r \<Rightarrow> r) \<le> 0 then R a b else R b a)"
    and trans: "\<And>a b c. R a b \<Longrightarrow> R b c \<Longrightarrow> R a c"
    and "set xs \<subseteq> S"
  shows "\<exists>zs. array_sort comparefn xs = Inr zs \<and> mset zs = mset xs \<and> sorted_wrt R zs"
  using assms(3)
proof (induction xs)
  case Nil
  then show ?case by simp
next
  case (Cons x xs)
  then obtain ys where ys: "array_sort comparefn xs = Inr ys" "mset ys = mset xs"
    "sorted_wrt R ys" by auto
  from ys(2) have "set ys = set xs" by (metis mset_eq_setD)
  with Cons.prems have "set (x # ys) \<subseteq> S" by simp
  from insert_sorted_ordering [of S comparefn R, OF cmp trans this ys(3)] ys show ?case
    by auto
qed

lemma price_le_trans: "price_le a b \<Longrightarrow> price_le b c \<Longrightarrow> price_le a c"
  by (auto simp: price_le_def split: option.splits)

lemma array_sort_price_asc:
  assumes "\<forall>p \<in> set xs. currentPrice p \<noteq> None"
  shows "\<exists>zs. array_sort price_asc xs = Inr zs \<and> mset zs = mset xs \<and> sorted_wrt price_le zs"
proof (rule array_sort_ordering [where S = "{p. currentPrice p \<noteq> None}"])
  fix a b :: product
  assume "a \<in> {p. currentPrice p \<noteq> None}" "b \<in> {p. currentPrice p \<noteq> None}"
  then show "\<exists>v. price_asc a b = Inr v \<and>
     (if (case v of None \<Rightarrow> 0 | Some r \<Rightarrow> r) \<le> 0 then price_le a b else price_le b a)"
    by (auto simp: price_asc_def num_minus_def price_le_def)
next
  show "\<And>a b c. price_le a b \<Longrightarrow> price_le b c \<Longrightarrow> price_le a c" by (rule price_le_trans)
next
  from assms show "set xs \<subseteq> {p. currentPrice p \<noteq> None}" by auto
qed

lemma array_sort_price_desc:
  assumes "\<forall>p \<in> set xs. currentPrice p \<noteq> None"
  shows "\<exists>zs. array_sort price_desc xs = Inr zs \<and> mset zs = mset xs
     \<and> sorted_wrt (\<lambda>a b. price_le b a) zs"
proof (rule array_sort_ordering [where S = "{p. currentPrice p \<noteq> None}"])
  fix a b :: product
  assume "a \<in> {p. currentPrice p \<noteq> None}" "b \<in> {p. currentPrice p \<noteq> None}"
  then show "\<exists>v. price_desc a b = Inr v \<and>
     (if (case v of None \<Rightarrow> 0 | Some r \<Rightarrow> r) \<le> 0 then price_le b a else price_le a b)"
    by (auto simp: price_desc_def num_minus_def price_le_def)
next
  show "\<And>a b c. price_le b a \<Longrightarrow> price_le c b \<Longrightarrow> price_le c a" by (blast intro: price_le_trans)
next
  from assms show "set xs \<subseteq> {p. currentPrice p \<noteq> None}" by auto
qed

lemma array_sort_total:
  assumes "\<And>a b. a \<in> set xs \<Longrightarrow> b \<in> set xs \<Longrightarrow> \<exists>v. comparefn a b = Inr v"
  shows "\<exists>zs. array_sort comparefn xs = Inr zs \<and> mset zs = mset xs"
proof -
  have "\<exists>zs. array_sort comparefn xs = Inr zs \<and> mset zs = mset xs \<and> sorted_wrt (\<lambda>a b. True) zs"
    by (rule array_sort_ordering [where S = "set xs"]) (use assms in auto)
  then show ?thesis by blast
qed

lemma sort_products_wellformed:
  assumes "list_all wellformed xs"
  shows "\<exists>zs. sort_products lc sortValue xs = Inr zs \<and> mset zs = mset xs"
proof -
  have t: "\<And>a. a \<in> set xs \<Longrightarrow> title a \<noteq> None"
    using assms by (auto simp: list_all_iff wellformed_def)
  have 1: "\<exists>zs. array_sort price_asc xs = Inr zs \<and> mset zs = mset xs"
    by (rule array_sort_total) (simp add: price_asc_def)
  have 2: "\<exists>zs. array_sort price_desc xs = Inr zs \<and> mset zs = mset xs"
    by (rule array_sort_total) (simp add: price_desc_def)
  have 3: "\<exists>zs. array_sort (name_asc lc) xs = Inr zs \<and> mset zs = mset xs"
    by (rule array_sort_total) (use t in \<open>auto simp: name_asc_def split: option.splits\<close>)
  have 4: "\<exists>zs. array_sort (name_desc lc) xs = Inr zs \<and> mset zs = mset xs"
    by (rule array_sort_total) (use t in \<open>auto simp: name_desc_def name_asc_def split: option.splits\<close>)
  from 1 2 3 4 show ?thesis by (auto simp: sort_products_def)
qed

text \<open>
  C2. On the array that \<^verbatim>\<open>GET /api/products\<close> serves, choosing the price-ascending sort
  leaves the products in the order served, 199.99 before 19.99, because the comparison
  reads the property \<^verbatim>\<open>currentPrice\<close>, which no served document has. The same holds for
  the descending sort, with 149.99 before 199.99.
\<close>

theorem price_sort_on_served_products:
  "map price served =
     [Some (14999 / 100), Some (19999 / 100), Some (1999 / 100), Some (5999 / 100),
      Some (8999 / 100), Some (7999 / 100), Some (12999 / 100), Some (8999 / 100)]
   \<and> filteredProducts (handle localeCompare (SortChange ''price_asc'')
        (fetchProducts localeCompare (Some served) (initial [] [] []))) = served
   \<and> filteredProducts (handle localeCompare (SortChange ''price_desc'')
        (fetchProducts localeCompare (Some served) (initial [] [] []))) = served"
  by code_simp

section \<open>The client as a state machine\<close>

lemma wellformed_renders: "wellformed p \<Longrightarrow> card_renders p"
  by (simp add: wellformed_def card_renders_def)

lemma set_currentProducts: "set (currentProducts fp cp) \<subseteq> set fp"
proof -
  have "set (take n (drop m fp)) \<subseteq> set fp" for n m
    by (meson set_take_subset set_drop_subset subset_trans)
  then show ?thesis by (simp add: currentProducts_def slice_def)
qed

lemma window_renders:
  "list_all wellformed fp \<Longrightarrow> list_all card_renders (currentProducts fp cp)"
  using set_currentProducts [of fp cp] by (auto simp: list_all_iff wellformed_renders)

lemma totalPages_pos: "fp \<noteq> [] \<Longrightarrow> 1 \<le> totalPages fp"
proof -
  assume "fp \<noteq> []"
  then have "1 \<le> length fp" by (cases fp) simp_all
  then have "1 \<le> (length fp + 7) div 8" by presburger
  then show ?thesis by (simp add: totalPages_def productsPerPage_def)
qed

lemma window_nonempty:
  assumes "1 \<le> cp" and "cp \<le> totalPages fp"
  shows "currentProducts fp cp \<noteq> []"
proof -
  from assms(2) have "cp \<le> (length fp + 7) div 8"
    by (simp add: totalPages_def productsPerPage_def)
  with assms(1) have "(cp - 1) * 8 < length fp" by presburger
  then show ?thesis by (simp add: currentProducts_def slice_def productsPerPage_def)
qed

lemma renderProducts_keeps:
  "allProducts (snd (renderProducts st)) = allProducts st"
  "filteredProducts (snd (renderProducts st)) = filteredProducts st"
  "currentPage (snd (renderProducts st)) = currentPage st"
  "categoryFilter (snd (renderProducts st)) = categoryFilter st"
  "sortBySelect (snd (renderProducts st)) = sortBySelect st"
  "searchInput (snd (renderProducts st)) = searchInput st"
  "loadingElement (snd (renderProducts st)) = loadingElement st"
  by (simp_all add: renderProducts_def renderPagination_def Let_def)

lemma criteria_met_cong:
  assumes "allProducts st' = allProducts st" "filteredProducts st' = filteredProducts st"
    "categoryFilter st' = categoryFilter st" "sortBySelect st' = sortBySelect st"
    "searchInput st' = searchInput st"
  shows "criteria_met lc st' = criteria_met lc st"
  using assms by (simp add: criteria_met_def cong: sum.case_cong)

lemma renderProducts_inv:
  assumes wa: "list_all wellformed (allProducts st)"
    and wf: "list_all wellformed (filteredProducts st)"
    and cm: "criteria_met lc st"
    and pr: "page_in_range st"
  shows "fst (renderProducts st) = None \<and> client_inv lc (snd (renderProducts st))"
proof -
  let ?w = "currentProducts (filteredProducts st) (currentPage st)"
  let ?st = "snd (renderProducts st)"
  have rend: "list_all card_renders ?w" using wf by (rule window_renders)
  have ne: "filteredProducts st \<noteq> [] \<Longrightarrow> ?w \<noteq> []"
    using pr by (simp add: page_in_range_def window_nonempty)
  have e: "?w = [] \<Longrightarrow> filteredProducts st = []" using ne by blast
  have 1: "fst (renderProducts st) = None"
    using rend by (simp add: renderProducts_def Let_def)
  have 2: "criteria_met lc ?st"
    using cm criteria_met_cong [of ?st st lc] by (simp add: renderProducts_keeps)
  have 3: "shows_window ?st"
    using rend by (simp add: shows_window_def renderProducts_def renderPagination_def Let_def)
  have 4: "buttons_fresh ?st"
    using rend e by (auto simp: buttons_fresh_def renderProducts_def renderPagination_def Let_def)
  have 5: "page_in_range ?st"
    using pr by (simp add: page_in_range_def renderProducts_keeps)
  from 1 2 3 4 5 wa wf show ?thesis
    by (simp add: client_inv_def renderProducts_keeps)
qed

lemma applyFilters_inv:
  assumes wa: "list_all wellformed (allProducts st)"
  shows "fst (applyFilters lc st) = None \<and> client_inv lc (snd (applyFilters lc st))
         \<and> currentPage (snd (applyFilters lc st)) = 1
         \<and> categoryFilter (snd (applyFilters lc st)) = categoryFilter st
         \<and> sortBySelect (snd (applyFilters lc st)) = sortBySelect st
         \<and> searchInput (snd (applyFilters lc st)) = searchInput st"
proof -
  let ?c = "categoryFilter st" and ?s = "toLowerCase (searchInput st)"
  let ?f = "filter (\<lambda>p. matchesCategory ?c p \<and> matchesSearch ?s p = Inr True) (allProducts st)"
  have f: "filter_products ?c ?s (allProducts st) = Inr ?f"
    using wa by (rule filter_products_wellformed)
  have wf: "list_all wellformed ?f" using wa by (auto simp: list_all_iff)
  from sort_products_wellformed [OF wf] obtain g
    where g: "sort_products lc (sortBySelect st) ?f = Inr g" "mset g = mset ?f" by blast
  from g(2) have "set g = set ?f" by (metis mset_eq_setD)
  with wf have wg: "list_all wellformed g" by (simp add: list_all_iff)
  let ?st1 = "st\<lparr>filteredProducts := g, currentPage := 1\<rparr>"
  have eq: "applyFilters lc st = renderProducts ?st1"
    using f g(1) by (simp add: applyFilters_def Let_def)
  have cm: "criteria_met lc ?st1" using f g(1) by (simp add: criteria_met_def)
  have pr: "page_in_range ?st1" using totalPages_pos [of g] by (simp add: page_in_range_def)
  have "fst (renderProducts ?st1) = None \<and> client_inv lc (snd (renderProducts ?st1))"
    by (rule renderProducts_inv) (use wa wg cm pr in simp_all)
  with eq show ?thesis by (simp add: renderProducts_keeps)
qed

lemma handle_inv:
  assumes inv: "client_inv lc st"
  shows "client_inv lc (handle lc ev st)"
proof -
  from inv have wa: "list_all wellformed (allProducts st)"
    and wf: "list_all wellformed (filteredProducts st)"
    and cm: "criteria_met lc st" and bf: "buttons_fresh st" and pr: "page_in_range st"
    by (simp_all add: client_inv_def)
  have page: "client_inv lc (snd (renderProducts (st\<lparr>currentPage := k\<rparr>)))"
    if "1 \<le> k" and "filteredProducts st \<noteq> [] \<Longrightarrow> k \<le> totalPages (filteredProducts st)" for k
  proof -
    have "criteria_met lc (st\<lparr>currentPage := k\<rparr>)"
      using cm criteria_met_cong [of "st\<lparr>currentPage := k\<rparr>" st lc] by simp
    moreover have "page_in_range (st\<lparr>currentPage := k\<rparr>)"
      using that by (simp add: page_in_range_def)
    ultimately show ?thesis
      using renderProducts_inv [of "st\<lparr>currentPage := k\<rparr>" lc] wa wf by simp
  qed
  have fresh: "pages = totalPages (filteredProducts st) \<and> page = currentPage st"
    if "pagination st = Some (page, pages)" and "filteredProducts st \<noteq> []" for page pages
    using bf that by (auto simp: buttons_fresh_def split: if_splits)
  show ?thesis
  proof (cases ev)
    case (CategoryChange v)
    then show ?thesis
      using applyFilters_inv [of "st\<lparr>categoryFilter := v\<rparr>" lc] wa by (simp add: handle_def)
  next
    case (SortChange v)
    then show ?thesis
      using applyFilters_inv [of "st\<lparr>sortBySelect := v\<rparr>" lc] wa by (simp add: handle_def)
  next
    case (SearchInput v)
    then show ?thesis
      using applyFilters_inv [of "st\<lparr>searchInput := v\<rparr>" lc] wa by (simp add: handle_def)
  next
    case PrevClick
    show ?thesis
    proof (cases "pagination st")
      case None
      with PrevClick inv show ?thesis by (simp add: handle_def)
    next
      case (Some b)
      obtain page pages where b: "b = (page, pages)" by (cases b)
      show ?thesis
      proof (cases "page \<noteq> 1 \<and> currentPage st > 1")
        case True
        have "client_inv lc (snd (renderProducts (st\<lparr>currentPage := currentPage st - 1\<rparr>)))"
          using True pr by (intro page) (auto simp: page_in_range_def)
        with PrevClick Some b True show ?thesis by (simp add: handle_def)
      next
        case False
        with PrevClick Some b inv show ?thesis by (auto simp: handle_def)
      qed
    qed
  next
    case (PageClick i)
    show ?thesis
    proof (cases "pagination st")
      case None
      with PageClick inv show ?thesis by (simp add: handle_def)
    next
      case (Some b)
      obtain page pages where b: "b = (page, pages)" by (cases b)
      show ?thesis
      proof (cases "1 \<le> i \<and> i \<le> pages")
        case True
        have "client_inv lc (snd (renderProducts (st\<lparr>currentPage := i\<rparr>)))"
          using True fresh [of page pages] Some b by (intro page) auto
        with PageClick Some b True show ?thesis by (simp add: handle_def)
      next
        case False
        with PageClick Some b inv show ?thesis by (auto simp: handle_def)
      qed
    qed
  next
    case NextClick
    show ?thesis
    proof (cases "pagination st")
      case None
      with NextClick inv show ?thesis by (simp add: handle_def)
    next
      case (Some b)
      obtain page pages where b: "b = (page, pages)" by (cases b)
      show ?thesis
      proof (cases "page \<noteq> pages \<and> currentPage st < pages")
        case True
        have "client_inv lc (snd (renderProducts (st\<lparr>currentPage := currentPage st + 1\<rparr>)))"
          using True fresh [of page pages] Some b by (intro page) auto
        with NextClick Some b True show ?thesis by (simp add: handle_def)
      next
        case False
        with NextClick Some b inv show ?thesis by (auto simp: handle_def)
      qed
    qed
  qed
qed

lemma run_inv: "client_inv lc st \<Longrightarrow> client_inv lc (run lc evs st)"
  by (induction evs arbitrary: st) (simp_all add: handle_inv)

lemma fetchProducts_inv:
  assumes "list_all wellformed data"
  shows "client_inv lc (fetchProducts lc (Some data) (initial c s q))"
proof -
  let ?st = "(initial c s q)\<lparr>loadingElement := Loading, allProducts := data, filteredProducts := data\<rparr>"
  have "list_all wellformed (allProducts ?st)" using assms by simp
  from applyFilters_inv [OF this, of lc]
  have a: "fst (applyFilters lc ?st) = None" "client_inv lc (snd (applyFilters lc ?st))"
    by simp_all
  obtain e st' where r: "applyFilters lc ?st = (e, st')" by (cases "applyFilters lc ?st")
  with a have "e = None" "client_inv lc st'" by simp_all
  then have "client_inv lc (st'\<lparr>loadingElement := Loaded\<rparr>)"
    by (simp add: client_inv_def criteria_met_def shows_window_def buttons_fresh_def
          page_in_range_def cong: sum.case_cong)
  with r \<open>e = None\<close> show ?thesis by (simp add: fetchProducts_def)
qed

lemma page_events_keep_filtered:
  "filteredProducts (handle lc PrevClick st) = filteredProducts st"
  "filteredProducts (handle lc (PageClick i) st) = filteredProducts st"
  "filteredProducts (handle lc NextClick st) = filteredProducts st"
  by (auto simp: handle_def renderProducts_keeps split: option.splits)

text \<open>
  C9, as amended. Let every fetched product carry \<^verbatim>\<open>title\<close>, \<^verbatim>\<open>description\<close> and
  \<^verbatim>\<open>currentPrice\<close>. In the state \<open>st\<close> after any sequence of events,
  \<^verbatim>\<open>filteredProducts\<close> is the filter and sort of \<^verbatim>\<open>allProducts\<close> for the present values of
  the controls, the grid shows the window of \<^verbatim>\<open>currentPage\<close> (the placeholder when it is
  empty), \<^verbatim>\<open>currentPage\<close> is at least 1 and, while \<^verbatim>\<open>filteredProducts\<close> is not empty, at
  most the page count. A further category, sort or search event recomputes
  \<^verbatim>\<open>filteredProducts\<close> and sets \<^verbatim>\<open>currentPage\<close> to 1; a further page event leaves
  \<^verbatim>\<open>filteredProducts\<close> as it is.
\<close>

theorem client_events_keep_consistency:
  assumes "list_all wellformed data"
    and "st = run lc evs (fetchProducts lc (Some data) (initial c s q))"
  shows "criteria_met lc st \<and> shows_window st \<and> 1 \<le> currentPage st
     \<and> (filteredProducts st \<noteq> [] \<longrightarrow> currentPage st \<le> totalPages (filteredProducts st))
     \<and> criteria_met lc (handle lc (CategoryChange v) st)
     \<and> currentPage (handle lc (CategoryChange v) st) = 1
     \<and> criteria_met lc (handle lc (SortChange v) st)
     \<and> currentPage (handle lc (SortChange v) st) = 1
     \<and> criteria_met lc (handle lc (SearchInput v) st)
     \<and> currentPage (handle lc (SearchInput v) st) = 1
     \<and> filteredProducts (handle lc PrevClick st) = filteredProducts st
     \<and> filteredProducts (handle lc (PageClick i) st) = filteredProducts st
     \<and> filteredProducts (handle lc NextClick st) = filteredProducts st"
proof -
  have inv: "client_inv lc st"
    unfolding assms(2) using assms(1) by (intro run_inv fetchProducts_inv)
  then have wa: "list_all wellformed (allProducts st)" by (simp add: client_inv_def)
  have a: "criteria_met lc (handle lc ev st)" for ev
    using handle_inv [OF inv, of ev] by (simp add: client_inv_def)
  have b: "currentPage (handle lc (CategoryChange v) st) = 1"
    using applyFilters_inv [of "st\<lparr>categoryFilter := v\<rparr>" lc] wa by (simp add: handle_def)
  have c: "currentPage (handle lc (SortChange v) st) = 1"
    using applyFilters_inv [of "st\<lparr>sortBySelect := v\<rparr>" lc] wa by (simp add: handle_def)
  have d: "currentPage (handle lc (SearchInput v) st) = 1"
    using applyFilters_inv [of "st\<lparr>searchInput := v\<rparr>" lc] wa by (simp add: handle_def)
  from inv a b c d show ?thesis
    by (simp add: client_inv_def page_in_range_def page_events_keep_filtered)
qed

theorem client_events_keep_consistency_witness:
  "list_all wellformed (map game [1..<18])
   \<and> filteredProducts (run ordinal_compare [PageClick 2, SortChange ''price_desc'', NextClick]
        seventeen) \<noteq> []
   \<and> criteria_met ordinal_compare
        (run ordinal_compare [PageClick 2, SortChange ''price_desc'', NextClick] seventeen)
   \<and> shows_window
        (run ordinal_compare [PageClick 2, SortChange ''price_desc'', NextClick] seventeen)
   \<and> currentPage (run ordinal_compare [PageClick 2, SortChange ''price_desc'', NextClick]
        seventeen)
      \<le> totalPages (filteredProducts
            (run ordinal_compare [PageClick 2, SortChange ''price_desc'', NextClick] seventeen))
   \<and> currentPage (handle ordinal_compare (SearchInput ''game'')
        (run ordinal_compare [PageClick 2, SortChange ''price_desc'', NextClick] seventeen)) = 1"
proof -
  have h: "list_all wellformed (map game [1..<18])"
    by code_simp
  have n: "filteredProducts (run ordinal_compare [PageClick 2, SortChange ''price_desc'', NextClick]
        seventeen) \<noteq> []"
    by code_simp
  from h n client_events_keep_consistency [OF h, of _ ordinal_compare
      "[PageClick 2, SortChange ''price_desc'', NextClick]" "[]" "[]" "[]" "''game''"]
  show ?thesis by (simp add: seventeen_def)
qed

text \<open>
  C9 as stated fails when nothing is to be shown: after an empty array was fetched,
  \<^verbatim>\<open>currentPage\<close> is 1 and the page count is 0.
\<close>

theorem page_exceeds_page_count:
  "currentPage (fetchProducts ordinal_compare (Some []) (initial [] [] [])) = 1
   \<and> totalPages (filteredProducts
        (fetchProducts ordinal_compare (Some []) (initial [] [] []))) = 0"
  by code_simp

text \<open>
  \<^verbatim>\<open>renderProducts\<close> returns before \<^verbatim>\<open>renderPagination\<close> when the window is empty, so
  the buttons of the last non-empty result stay on the page. With three pages shown, a
  search without a match and a click on the button 3 leave \<^verbatim>\<open>currentPage\<close> at 3 with
  nothing to show.
\<close>

lemma stale_buttons_after_empty_result:
  "pagination (run ordinal_compare [SearchInput ''zzz''] seventeen) = Some (1, 3)
   \<and> filteredProducts (run ordinal_compare [SearchInput ''zzz'', PageClick 3] seventeen) = []
   \<and> currentPage (run ordinal_compare [SearchInput ''zzz'', PageClick 3] seventeen) = 3"
  by code_simp

section \<open>Uploaded file names\<close>

text \<open>A name that the upload middleware gives starts with a digit of the clock.\<close>

lemma multer_filename_example: "multer_filename 1234 ''mug.png'' = ''1234-mug.png''"
  by code_simp

lemma digit_char_digit: "d < 10 \<Longrightarrow> digit_char d \<in> set ''0123456789''"
  unfolding digit_char_def by (rule nth_mem) simp

lemma digits_head:
  "\<exists>d ds. digits (Suc bound) n = d # ds \<and> d \<in> set ''0123456789''"
proof (induction bound arbitrary: n)
  case 0
  show ?case
  proof (cases "n < 10")
    case True then show ?thesis using digit_char_digit [of n] by simp
  next
    case False
    then show ?thesis using digit_char_digit [of "n mod 10"] by simp
  qed
next
  case (Suc bound)
  show ?case
  proof (cases "n < 10")
    case True then show ?thesis using digit_char_digit [of n] by simp
  next
    case False
    from Suc [of "n div 10"] obtain d ds
      where "digits (Suc bound) (n div 10) = d # ds" "d \<in> set ''0123456789''" by blast
    with False show ?thesis by simp
  qed
qed

lemma multer_filename_head:
  "\<exists>d ds. multer_filename now originalname = d # ds \<and> d \<in> set ''0123456789''"
proof -
  from digits_head [of now now] obtain d ds
    where "decimal now = d # ds" "d \<in> set ''0123456789''" by (auto simp: decimal_def)
  then show ?thesis by (simp add: multer_filename_def)
qed


lemma sample_images_not_uploaded:
  "multer_filename now originalname \<notin>
     {''headphones.jpg'', ''smartwatch.jpg'', ''tshirt.jpg'', ''jeans.jpg'',
      ''coffeemaker.jpg'', ''blender.jpg'', ''earbuds.jpg'', ''shoes.jpg''}"
  using multer_filename_head [of now originalname] by auto

section \<open>Seeding\<close>




lemma seeded_collection:
  "insertMany now sampleProducts [] =
     map (\<lambda>(mk, oid). mk oid now) (zip sampleProducts [1..<9])"
  by (simp add: sampleProducts_def sample_def fresh_ident_def upt_rec)

lemma seeded_is_eight:
  assumes "collection sv = []"
  shows "collection (seedDatabase now sv) =
           map (\<lambda>(mk, oid). mk oid now) (zip sampleProducts [1..<9])"
  using assms by (simp add: seedDatabase_def seeded_collection)

lemma created_image_is_upload:
  assumes "createProduct t req sv0 = ((201, Product d), sv1)"
  shows "\<exists>originalname. image_file d = Some (multer_filename t originalname)"
  using assms
  by (auto simp: createProduct_def upload_single_def new_product_def required_string_def
      split: option.splits sum.splits if_splits)

text \<open>
  C10. If the collection is empty, \<^verbatim>\<open>seedDatabase\<close> inserts the 8 sample products, of
  the categories electronics, clothing and home; \<^verbatim>\<open>GET /api/products\<close> then serves them.
  No upload ever gives a file one of their image names, and no call of the POST handler
  creates one of these documents. If the collection holds a document, the state stays as
  it is. Seeding never writes to the upload directory.
\<close>

theorem seedDatabase_only_when_empty:
  "(collection sv = [] \<longrightarrow>
      length (collection (seedDatabase now sv)) = 8
    \<and> map name (collection (seedDatabase now sv)) =
        [Some ''Wireless Headphones'', Some ''Smart Watch'', Some ''Cotton T-Shirt'',
         Some ''Denim Jeans'', Some ''Coffee Maker'', Some ''Blender'',
         Some ''Wireless Earbuds'', Some ''Running Shoes'']
    \<and> map category (collection (seedDatabase now sv)) =
        [Some ''electronics'', Some ''electronics'', Some ''clothing'', Some ''clothing'',
         Some ''home'', Some ''home'', Some ''electronics'', Some ''clothing'']
    \<and> map image_file (collection (seedDatabase now sv)) =
        [Some ''headphones.jpg'', Some ''smartwatch.jpg'', Some ''tshirt.jpg'',
         Some ''jeans.jpg'', Some ''coffeemaker.jpg'', Some ''blender.jpg'',
         Some ''earbuds.jpg'', Some ''shoes.jpg'']
    \<and> listProducts (seedDatabase now sv) = (200, Products (collection (seedDatabase now sv)))
    \<and> (\<forall>d \<in> set (collection (seedDatabase now sv)).
          (\<forall>t originalname. image_file d \<noteq> Some (multer_filename t originalname))
        \<and> (\<forall>t req sv0 sv1 d'. createProduct t req sv0 = ((201, Product d'), sv1) \<longrightarrow> d' \<noteq> d)))
   \<and> (collection sv \<noteq> [] \<longrightarrow> seedDatabase now sv = sv)
   \<and> uploads (seedDatabase now sv) = uploads sv
   \<and> undeletable (seedDatabase now sv) = undeletable sv"
proof (intro conjI impI)
  assume e: "collection sv = []"
  note c = seeded_is_eight [OF e, of now]
  show "length (collection (seedDatabase now sv)) = 8"
    unfolding c by (simp add: sampleProducts_def)
  show "map name (collection (seedDatabase now sv)) =
        [Some ''Wireless Headphones'', Some ''Smart Watch'', Some ''Cotton T-Shirt'',
         Some ''Denim Jeans'', Some ''Coffee Maker'', Some ''Blender'',
         Some ''Wireless Earbuds'', Some ''Running Shoes'']"
    unfolding c by (simp add: sampleProducts_def sample_def upt_rec)
  show "map category (collection (seedDatabase now sv)) =
        [Some ''electronics'', Some ''electronics'', Some ''clothing'', Some ''clothing'',
         Some ''home'', Some ''home'', Some ''electronics'', Some ''clothing'']"
    unfolding c by (simp add: sampleProducts_def sample_def upt_rec)
  show img: "map image_file (collection (seedDatabase now sv)) =
        [Some ''headphones.jpg'', Some ''smartwatch.jpg'', Some ''tshirt.jpg'',
         Some ''jeans.jpg'', Some ''coffeemaker.jpg'', Some ''blender.jpg'',
         Some ''earbuds.jpg'', Some ''shoes.jpg'']"
    unfolding c by (simp add: sampleProducts_def sample_def upt_rec)
  show "listProducts (seedDatabase now sv) = (200, Products (collection (seedDatabase now sv)))"
    by (simp add: listProducts_def)
  show "\<forall>d \<in> set (collection (seedDatabase now sv)).
          (\<forall>t originalname. image_file d \<noteq> Some (multer_filename t originalname))
        \<and> (\<forall>t req sv0 sv1 d'. createProduct t req sv0 = ((201, Product d'), sv1) \<longrightarrow> d' \<noteq> d)"
  proof
    fix d assume "d \<in> set (collection (seedDatabase now sv))"
    then have "image_file d \<in> set (map image_file (collection (seedDatabase now sv)))"
      by simp
    then have m: "image_file d \<in> Some `
        {''headphones.jpg'', ''smartwatch.jpg'', ''tshirt.jpg'', ''jeans.jpg'',
         ''coffeemaker.jpg'', ''blender.jpg'', ''earbuds.jpg'', ''shoes.jpg''}"
      unfolding img by auto
    have n: "image_file d \<noteq> Some (multer_filename t originalname)" for t originalname
      using m sample_images_not_uploaded [of t originalname] by auto
    have "d' \<noteq> d" if "createProduct t req sv0 = ((201, Product d'), sv1)" for t req sv0 sv1 d'
      using created_image_is_upload [OF that] n by auto
    with n show "(\<forall>t originalname. image_file d \<noteq> Some (multer_filename t originalname))
        \<and> (\<forall>t req sv0 sv1 d'. createProduct t req sv0 = ((201, Product d'), sv1) \<longrightarrow> d' \<noteq> d)"
      by blast
  qed
next
  assume "collection sv \<noteq> []"
  then show "seedDatabase now sv = sv" by (simp add: seedDatabase_def)
next
  show "uploads (seedDatabase now sv) = uploads sv" by (simp add: seedDatabase_def Let_def)
  show "undeletable (seedDatabase now sv) = undeletable sv" by (simp add: seedDatabase_def Let_def)
qed

theorem seedDatabase_only_when_empty_witness:
  "collection fresh_deployment = []
   \<and> length (collection (seedDatabase 0 fresh_deployment)) = 8
   \<and> collection (seedDatabase 0 fresh_deployment) ! 0
       \<in> set (collection (seedDatabase 0 fresh_deployment))
   \<and> image_file (collection (seedDatabase 0 fresh_deployment) ! 0)
       \<noteq> Some (multer_filename 5 ''headphones.jpg'')
   \<and> collection seeded_deployment \<noteq> []
   \<and> seedDatabase 7 seeded_deployment = seeded_deployment"
proof -
  have e: "collection fresh_deployment = []" by (simp add: fresh_deployment_def)
  have n: "collection seeded_deployment \<noteq> []" by code_simp
  note t = seedDatabase_only_when_empty [of fresh_deployment 0]
  note u = seedDatabase_only_when_empty [of seeded_deployment 7]
  from e t have l: "length (collection (seedDatabase 0 fresh_deployment)) = 8" by blast
  then have m: "collection (seedDatabase 0 fresh_deployment) ! 0
       \<in> set (collection (seedDatabase 0 fresh_deployment))" by simp
  from e t have "\<forall>d \<in> set (collection (seedDatabase 0 fresh_deployment)).
          (\<forall>t originalname. image_file d \<noteq> Some (multer_filename t originalname))
        \<and> (\<forall>t req sv0 sv1 d'. createProduct t req sv0 = ((201, Product d'), sv1) \<longrightarrow> d' \<noteq> d)"
    by blast
  with m have i: "image_file (collection (seedDatabase 0 fresh_deployment) ! 0)
       \<noteq> Some (multer_filename 5 ''headphones.jpg'')" by blast
  from n u have "seedDatabase 7 seeded_deployment = seeded_deployment" by blast
  with e l m i n show ?thesis by blast
qed

section \<open>Reading a product\<close>




section \<open>Creating a product\<close>





section \<open>Updating a product\<close>

lemma delete_old_image_collection:
  "delete_old_image product sv = Inr sv' \<Longrightarrow> collection sv' = collection sv"
  by (auto simp: delete_old_image_def split: option.splits if_splits)

lemma apply_update_keeps:
  "ident (apply_update policy req f d) = ident d"
  "createdAt (apply_update policy req f d) = createdAt d"
  "title (apply_update policy req f d) = title d"
  "console (apply_update policy req f d) = console d"
  "currentPrice (apply_update policy req f d) = currentPrice d"
  by (simp_all add: apply_update_def)




lemma updateProduct_collection:
  "collection (snd (updateProduct policy now id_param req sv)) = collection sv
   \<or> (\<exists>oid f. collection (snd (updateProduct policy now id_param req sv)) =
         map (\<lambda>d. if ident d = oid then apply_update policy req f d else d) (collection sv))"
proof -
  obtain filename sv1 where u: "upload_single now req sv = (filename, sv1)"
    by (cases "upload_single now req sv")
  then have c1: "collection sv1 = collection sv"
    by (auto simp: upload_single_def split: option.splits)
  let ?del = "if filename = None then Inr sv1
              else (case findById (collection sv1) id_param of
                      Inl err \<Rightarrow> Inl err
                    | Inr product \<Rightarrow> delete_old_image product sv1)"
  show ?thesis
  proof (cases ?del)
    case (Inl e)
    with u c1 show ?thesis by (simp add: updateProduct_def)
  next
    case (Inr sv2)
    then have c2: "collection sv2 = collection sv1"
      by (auto split: if_splits sum.splits dest: delete_old_image_collection)
    with Inr u c1 show ?thesis
      by (auto simp: updateProduct_def findByIdAndUpdate_def split: option.splits)
  qed
qed





text \<open>With a Mongoose that stores \<^verbatim>\<open>null\<close> for an \<^verbatim>\<open>undefined\<close> key (version 5), the same
  request clears the fields it does not supply.\<close>

lemma updateProduct_StoreNull_example:
  "name (collection seeded_deployment ! 2) = Some ''Cotton T-Shirt''
   \<and> fst (updateProduct StoreNull 5 ''000000000000000000000003'' stock_request seeded_deployment)
     = (200, Product ((collection seeded_deployment ! 2)
          \<lparr>name := None, description := None, price := None, category := None,
             stock := Some 5, rating := None\<rparr>))"
  by code_simp




section \<open>The served documents in the client\<close>

text \<open>Seeding, creating and updating keep every document of the collection within the
  schema, so none that \<^verbatim>\<open>GET /api/products\<close> serves has \<^verbatim>\<open>title\<close>, \<^verbatim>\<open>console\<close> or
  \<^verbatim>\<open>currentPrice\<close>. On such an array a selected category keeps nothing, a search text
  throws, and a price sort changes nothing.\<close>

lemma insertMany_schema_only:
  "list_all schema_only docs \<Longrightarrow> list_all (\<lambda>mk. \<forall>oid t. schema_only (mk oid t)) mks
     \<Longrightarrow> list_all schema_only (insertMany now mks docs)"
  by (induction mks arbitrary: docs) simp_all

lemma seedDatabase_schema_only:
  assumes "list_all schema_only (collection sv)"
  shows "list_all schema_only (collection (seedDatabase now sv))"
proof -
  have "list_all (\<lambda>mk. \<forall>oid t. schema_only (mk oid t)) sampleProducts"
    by (simp add: sampleProducts_def sample_def schema_only_def)
  with assms show ?thesis
    by (simp add: seedDatabase_def Let_def insertMany_schema_only)
qed

lemma createProduct_schema_only:
  assumes "list_all schema_only (collection sv)"
  shows "list_all schema_only (collection (snd (createProduct now req sv)))"
  using assms
  by (auto simp: createProduct_def upload_single_def new_product_def schema_only_def
      split: option.splits sum.splits)

lemma updateProduct_schema_only:
  assumes "list_all schema_only (collection sv)"
  shows "list_all schema_only (collection (snd (updateProduct policy now id_param req sv)))"
  using assms updateProduct_collection [of policy now id_param req sv]
  by (auto simp: list_all_iff schema_only_def apply_update_keeps)

lemma category_filter_schema_only:
  assumes "list_all schema_only xs" and "c \<noteq> []"
  shows "filter_products c [] xs = Inr []"
  using assms
  by (induction xs) (simp_all add: matchesSearch_def matchesCategory_def schema_only_def)

lemma search_schema_only:
  assumes "list_all schema_only xs" and "xs \<noteq> []" and "s \<noteq> []"
  shows "filter_products c s xs = Inl TypeError"
  using assms by (cases xs) (simp_all add: matchesSearch_def schema_only_def)

lemma insert_sorted_schema_only:
  "list_all schema_only (x # ys) \<Longrightarrow> insert_sorted price_asc x ys = Inr (x # ys)
     \<and> insert_sorted price_desc x ys = Inr (x # ys)"
  by (cases ys) (simp_all add: price_asc_def price_desc_def num_minus_def schema_only_def)

lemma price_sort_schema_only:
  "list_all schema_only xs \<Longrightarrow> array_sort price_asc xs = Inr xs \<and> array_sort price_desc xs = Inr xs"
  by (induction xs) (simp_all add: insert_sorted_schema_only)

end
